theory Spec2Isabelle
  imports Complex_Main
begin

section \<open>JavaScript values\<close>

text \<open>
  The view state of \<open>App.jsx\<close> holds JavaScript values: strings typed by the user and
  bodies parsed from JSON responses. A string is its list of UTF-16 code units, each a
  natural number; \<open>js\<close> turns a literal of the source into such a list.
\<close>

type_synonym jsstring = "nat list"

definition js :: "string \<Rightarrow> jsstring" where
  "js s = map of_char s"

text \<open>
  A value is \<open>undefined\<close>, \<open>null\<close>, a boolean, a number, a string, an array or an
  object. A number parsed from JSON is finite; it is read only for its truthiness and
  by \<open>===\<close>, which do not separate \<open>0\<close> from \<open>-0\<close>, so a rational stands for it.
  An object is the list of its own properties; a lookup takes the first binding of a
  name.
\<close>

datatype jsval =
    JUndefined
  | JNull
  | JBool bool
  | JNum rat
  | JStr jsstring
  | JArr "jsval list"
  | JObj "(jsstring \<times> jsval) list"

text \<open>The only exception the modelled code can raise by itself.\<close>

datatype error = TypeError

text \<open>Truthiness, as \<open>!v\<close>, \<open>a && b\<close> and \<open>a || b\<close> read it.\<close>

fun truthy :: "jsval \<Rightarrow> bool" where
  "truthy JUndefined = False"
| "truthy JNull = False"
| "truthy (JBool b) = b"
| "truthy (JNum n) = (n \<noteq> 0)"
| "truthy (JStr s) = (s \<noteq> [])"
| "truthy (JArr xs) = True"
| "truthy (JObj kvs) = True"

text \<open>\<open>a || b\<close>\<close>

definition js_or :: "jsval \<Rightarrow> jsval \<Rightarrow> jsval" where
  "js_or a b = (if truthy a then a else b)"

text \<open>
  \<open>v.p\<close> for the property names the code reads (\<open>languages\<close>, \<open>key\<close>, \<open>curriculum\<close>,
  \<open>feedback\<close>, \<open>error\<close>, \<open>response\<close>, \<open>data\<close>, \<open>message\<close>): a TypeError on \<open>undefined\<close>
  and \<open>null\<close>, the own property of an object, \<open>undefined\<close> on every other value (no
  prototype defines one of these names).
\<close>

fun get_prop :: "jsval \<Rightarrow> jsstring \<Rightarrow> error + jsval" where
  "get_prop JUndefined p = Inl TypeError"
| "get_prop JNull p = Inl TypeError"
| "get_prop (JObj kvs) p = Inr (case map_of kvs p of Some v \<Rightarrow> v | None \<Rightarrow> JUndefined)"
| "get_prop v p = Inr JUndefined"

text \<open>\<open>v?.p\<close>: \<open>undefined\<close> where \<open>v.p\<close> would raise.\<close>

definition get_opt :: "jsval \<Rightarrow> jsstring \<Rightarrow> jsval" where
  "get_opt v p = (case get_prop v p of Inl e \<Rightarrow> JUndefined | Inr x \<Rightarrow> x)"

text \<open>
  \<open>a === b\<close>. Primitives compare by value. Arrays and objects compare by identity; the
  code compares a value of a freshly parsed response with a value held in the state or
  with a literal, which are never the same object, so the comparison is false.
\<close>

fun strict_eq :: "jsval \<Rightarrow> jsval \<Rightarrow> bool" where
  "strict_eq JUndefined JUndefined = True"
| "strict_eq JNull JNull = True"
| "strict_eq (JBool a) (JBool b) = (a = b)"
| "strict_eq (JNum a) (JNum b) = (a = b)"
| "strict_eq (JStr a) (JStr b) = (a = b)"
| "strict_eq a b = False"

text \<open>
  \<open>String.prototype.trim\<close> removes the white space and line terminators of ECMAScript
  from both ends: TAB, LF, VT, FF, CR, SP, NBSP, U+1680, U+2000 to U+200A, U+2028,
  U+2029, U+202F, U+205F, U+3000 and U+FEFF.
\<close>

definition is_white_space :: "nat \<Rightarrow> bool" where
  "is_white_space c =
     (c \<in> {9, 10, 11, 12, 13, 32, 160, 5760, 8232, 8233, 8239, 8287, 12288, 65279}
      \<or> (8192 \<le> c \<and> c \<le> 8202))"

definition trim :: "jsstring \<Rightarrow> jsstring" where
  "trim s = rev (dropWhile is_white_space (rev (dropWhile is_white_space s)))"

text \<open>\<open>!s.trim()\<close>: the guard of the four handlers and of their buttons.\<close>

definition blank :: "jsstring \<Rightarrow> bool" where
  "blank s = (trim s = [])"

section \<open>The API client (\<open>api.js\<close>)\<close>

text \<open>
  \<open>axios.create\<close> fixes the base address; \<open>API.post(url, data)\<close> and \<open>API.get(url)\<close>
  issue one request each. The request is what the client hands to the HTTP library:
  method, base address, relative path and body.
\<close>

datatype http_method = GET | POST

record request =
  req_method :: http_method
  req_baseURL :: jsstring
  req_url :: jsstring
  req_data :: "jsval option"

definition API_baseURL :: jsstring where
  "API_baseURL = js ''http://127.0.0.1:8000/api/''"

definition API_post :: "jsstring \<Rightarrow> jsval \<Rightarrow> request" where
  "API_post path body =
     \<lparr>req_method = POST, req_baseURL = API_baseURL, req_url = path, req_data = Some body\<rparr>"

definition API_get :: "jsstring \<Rightarrow> request" where
  "API_get path =
     \<lparr>req_method = GET, req_baseURL = API_baseURL, req_url = path, req_data = None\<rparr>"

definition generateCurriculum :: "jsval \<Rightarrow> request" where
  "generateCurriculum topic = API_post (js ''curriculum/'') (JObj [(js ''topic'', topic)])"

definition generateLesson :: "jsval \<Rightarrow> request" where
  "generateLesson concept = API_post (js ''lesson/'') (JObj [(js ''concept'', concept)])"

definition getFeedback :: "jsval \<Rightarrow> request" where
  "getFeedback code = API_post (js ''feedback/'') (JObj [(js ''code'', code)])"

definition listLanguages :: request where
  "listLanguages = API_get (js ''execute/'')"

definition runCode :: "jsval \<Rightarrow> request" where
  "runCode payload = API_post (js ''execute/'') payload"

section \<open>The view state (\<open>App\<close>)\<close>

text \<open>
  One field for each \<open>useState\<close> of \<open>App\<close>, and \<open>cancelled\<close>, the variable of the
  effect that fetches the languages. Inputs are strings; everything stored from a
  response is a JavaScript value.
\<close>

record app =
  topic :: jsstring
  curriculum :: jsval
  topicLoading :: bool
  concept :: jsstring
  lesson :: jsval
  lessonLoading :: bool
  code :: jsstring
  stdin :: jsstring
  feedback :: jsval
  feedbackLoading :: bool
  languages :: jsval
  languagesLoading :: bool
  languageError :: jsval
  selectedLanguage :: jsval
  executionLoading :: bool
  executionResult :: jsval
  cancelled :: bool

definition initial_app :: app where
  "initial_app =
     \<lparr>topic = [], curriculum = JNull, topicLoading = False,
      concept = [], lesson = JNull, lessonLoading = False,
      code = [], stdin = [], feedback = JNull, feedbackLoading = False,
      languages = JArr [], languagesLoading = False, languageError = JNull,
      selectedLanguage = JStr (js ''python''),
      executionLoading = False, executionResult = JNull,
      cancelled = False\<rparr>"

text \<open>
  An \<open>async\<close> handler is modelled in three parts: the part that runs at the call, up to
  the \<open>await\<close>, returns the new state and the requests it has issued; \<open>_resolved\<close> and
  \<open>_rejected\<close> are what runs when the promise settles, on the state of that moment
  (the setters do not read the variables of the closure).
\<close>

subsection \<open>The languages fetch\<close>

definition fetchLanguages :: "app \<Rightarrow> app \<times> request list" where
  "fetchLanguages s = (s\<lparr>languagesLoading := True\<rparr>, [listLanguages])"

text \<open>\<open>langs.some((lang) => lang.key === current)\<close> on the elements of an array.\<close>

fun some_key_eq :: "jsval list \<Rightarrow> jsval \<Rightarrow> error + bool" where
  "some_key_eq [] current = Inr False"
| "some_key_eq (lang # rest) current =
     (case get_prop lang (js ''key'') of
        Inl e \<Rightarrow> Inl e
      | Inr k \<Rightarrow> if strict_eq k current then Inr True else some_key_eq rest current)"

text \<open>\<open>langs.some\<close> is a function on arrays only.\<close>

fun langs_some :: "jsval \<Rightarrow> jsval \<Rightarrow> error + bool" where
  "langs_some (JArr xs) current = some_key_eq xs current"
| "langs_some v current = Inl TypeError"

text \<open>\<open>langs[0]\<close>\<close>

fun index0 :: "jsval \<Rightarrow> error + jsval" where
  "index0 JUndefined = Inl TypeError"
| "index0 JNull = Inl TypeError"
| "index0 (JArr xs) = Inr (case xs of [] \<Rightarrow> JUndefined | x # rest \<Rightarrow> x)"
| "index0 (JStr cs) = Inr (case cs of [] \<Rightarrow> JUndefined | c # rest \<Rightarrow> JStr [c])"
| "index0 (JObj kvs) = Inr (case map_of kvs (js ''0'') of Some v \<Rightarrow> v | None \<Rightarrow> JUndefined)"
| "index0 v = Inr JUndefined"

text \<open>\<open>langs[0]?.key || current || "python"\<close>\<close>

definition first_key_or :: "jsval \<Rightarrow> jsval \<Rightarrow> error + jsval" where
  "first_key_or langs current =
     (case index0 langs of
        Inl e \<Rightarrow> Inl e
      | Inr l \<Rightarrow> Inr (js_or (js_or (get_opt l (js ''key'')) current) (JStr (js ''python''))))"

text \<open>
  The updater passed to \<open>setSelectedLanguage\<close>. An exception in it is raised while React
  applies the update, outside the \<open>try\<close> of \<open>fetchLanguages\<close>.
\<close>

definition select_language :: "jsval \<Rightarrow> jsval \<Rightarrow> error + jsval" where
  "select_language langs current =
     (if truthy current then
        (case langs_some langs current of
           Inl e \<Rightarrow> Inl e
         | Inr found \<Rightarrow> if found then Inr current else first_key_or langs current)
      else first_key_or langs current)"

definition fetchLanguages_resolved :: "jsval \<Rightarrow> app \<Rightarrow> error + app" where
  "fetchLanguages_resolved d s =
     (if cancelled s then Inr s
      else
        let langs = js_or (get_opt d (js ''languages'')) (JArr []) in
        (case select_language langs (selectedLanguage s) of
           Inl e \<Rightarrow> Inl e
         | Inr sel \<Rightarrow>
             Inr (s\<lparr>languages := langs, selectedLanguage := sel,
                    languageError := JNull, languagesLoading := False\<rparr>)))"

definition fetchLanguages_rejected :: "jsval \<Rightarrow> app \<Rightarrow> app" where
  "fetchLanguages_rejected err s =
     (if cancelled s then s
      else s\<lparr>languageError :=
                 JStr (js ''Unable to load Judge0 languages. Check your backend connection.''),
             languagesLoading := False\<rparr>)"

text \<open>The function the effect returns; React calls it when \<open>App\<close> is torn down.\<close>

definition cleanup :: "app \<Rightarrow> app" where
  "cleanup s = s\<lparr>cancelled := True\<rparr>"

text \<open>The effect has no dependencies: it runs once, after the first render.\<close>

definition mount :: "app \<times> request list" where
  "mount = fetchLanguages initial_app"

subsection \<open>The four handlers\<close>

text \<open>\<open>{ error: "failed to fetch" }\<close>\<close>

definition failed_to_fetch :: jsval where
  "failed_to_fetch = JObj [(js ''error'', JStr (js ''failed to fetch''))]"

definition handleGenerate :: "app \<Rightarrow> app \<times> request list" where
  "handleGenerate s =
     (if blank (topic s) then (s, [])
      else (s\<lparr>topicLoading := True\<rparr>, [generateCurriculum (JStr (topic s))]))"

text \<open>
  \<open>res.data.curriculum || res.data\<close> is evaluated inside the \<open>try\<close>: on a body that is
  \<open>null\<close> the TypeError is caught by the handler's own \<open>catch\<close>.
\<close>

definition handleGenerate_resolved :: "jsval \<Rightarrow> app \<Rightarrow> app" where
  "handleGenerate_resolved d s =
     (case get_prop d (js ''curriculum'') of
        Inl e \<Rightarrow> s\<lparr>curriculum := failed_to_fetch, topicLoading := False\<rparr>
      | Inr c \<Rightarrow> s\<lparr>curriculum := js_or c d, topicLoading := False\<rparr>)"

definition handleGenerate_rejected :: "jsval \<Rightarrow> app \<Rightarrow> app" where
  "handleGenerate_rejected err s = s\<lparr>curriculum := failed_to_fetch, topicLoading := False\<rparr>"

definition handleExplain :: "app \<Rightarrow> app \<times> request list" where
  "handleExplain s =
     (if blank (concept s) then (s, [])
      else (s\<lparr>lessonLoading := True\<rparr>, [generateLesson (JStr (concept s))]))"

definition handleExplain_resolved :: "jsval \<Rightarrow> app \<Rightarrow> app" where
  "handleExplain_resolved d s = s\<lparr>lesson := d, lessonLoading := False\<rparr>"

definition handleExplain_rejected :: "jsval \<Rightarrow> app \<Rightarrow> app" where
  "handleExplain_rejected err s = s\<lparr>lesson := failed_to_fetch, lessonLoading := False\<rparr>"

definition handleFeedback :: "app \<Rightarrow> app \<times> request list" where
  "handleFeedback s =
     (if blank (code s) then (s, [])
      else (s\<lparr>feedbackLoading := True\<rparr>, [getFeedback (JStr (code s))]))"

definition handleFeedback_resolved :: "jsval \<Rightarrow> app \<Rightarrow> app" where
  "handleFeedback_resolved d s =
     (case get_prop d (js ''feedback'') of
        Inl e \<Rightarrow> s\<lparr>feedback := failed_to_fetch, feedbackLoading := False\<rparr>
      | Inr f \<Rightarrow> s\<lparr>feedback := js_or f d, feedbackLoading := False\<rparr>)"

definition handleFeedback_rejected :: "jsval \<Rightarrow> app \<Rightarrow> app" where
  "handleFeedback_rejected err s = s\<lparr>feedback := failed_to_fetch, feedbackLoading := False\<rparr>"

definition handleRun :: "app \<Rightarrow> app \<times> request list" where
  "handleRun s =
     (if blank (code s) then (s, [])
      else (s\<lparr>executionLoading := True, executionResult := JNull\<rparr>,
            [runCode (JObj [(js ''language'', selectedLanguage s),
                            (js ''source_code'', JStr (code s)),
                            (js ''stdin'', JStr (stdin s))])]))"

definition handleRun_resolved :: "jsval \<Rightarrow> app \<Rightarrow> app" where
  "handleRun_resolved d s = s\<lparr>executionResult := d, executionLoading := False\<rparr>"

text \<open>
  \<open>err?.response?.data?.error || err?.message || "Execution failed. Please try again."\<close>
\<close>

definition run_fallback :: "jsval \<Rightarrow> jsval" where
  "run_fallback err =
     js_or (js_or (get_opt (get_opt (get_opt err (js ''response'')) (js ''data'')) (js ''error''))
                  (get_opt err (js ''message'')))
           (JStr (js ''Execution failed. Please try again.''))"

definition handleRun_rejected :: "jsval \<Rightarrow> app \<Rightarrow> app" where
  "handleRun_rejected err s =
     s\<lparr>executionResult := JObj [(js ''error'', run_fallback err)], executionLoading := False\<rparr>"

subsection \<open>Buttons and events\<close>

text \<open>
  \<open>PrimaryButton\<close> renders a \<open>button\<close> with \<open>disabled={disabled || loading}\<close>; a click
  on a disabled button does not call \<open>onClick\<close>.
\<close>

definition PrimaryButton ::
  "(app \<Rightarrow> app \<times> request list) \<Rightarrow> bool \<Rightarrow> bool \<Rightarrow> app \<Rightarrow> app \<times> request list" where
  "PrimaryButton onClick loading disabled s =
     (let isDisabled = disabled \<or> loading in if isDisabled then (s, []) else onClick s)"

datatype button = BtnGenerate | BtnExplain | BtnRun | BtnFeedback

fun click :: "button \<Rightarrow> app \<Rightarrow> app \<times> request list" where
  "click BtnGenerate s = PrimaryButton handleGenerate (topicLoading s) (blank (topic s)) s"
| "click BtnExplain s = PrimaryButton handleExplain (lessonLoading s) (blank (concept s)) s"
| "click BtnRun s = PrimaryButton handleRun (executionLoading s) (blank (code s)) s"
| "click BtnFeedback s = PrimaryButton handleFeedback (feedbackLoading s) (blank (code s)) s"

text \<open>
  \<open>languages.length === 0\<close>. The list in the state is \<open>[]\<close> or a truthy value of a
  response, never \<open>null\<close> or \<open>undefined\<close>.
\<close>

fun length_is_0 :: "jsval \<Rightarrow> bool" where
  "length_is_0 (JArr xs) = (xs = [])"
| "length_is_0 (JStr cs) = (cs = [])"
| "length_is_0 (JObj kvs) =
     (case map_of kvs (js ''length'') of Some v \<Rightarrow> strict_eq v (JNum 0) | None \<Rightarrow> False)"
| "length_is_0 v = False"

text \<open>
  The \<open>select\<close> is disabled while the languages load and while there is none; its
  \<open>onChange\<close> stores the chosen value, a string.
\<close>

definition select_onChange :: "jsstring \<Rightarrow> app \<Rightarrow> app" where
  "select_onChange v s =
     (if languagesLoading s \<or> length_is_0 (languages s) then s
      else s\<lparr>selectedLanguage := JStr v\<rparr>)"

text \<open>
  The five operations, and everything that can happen to a mounted \<open>App\<close>: the user
  edits an input, chooses a language or clicks a button, a call settles, or the
  component is torn down. The editor reports \<open>undefined\<close> for an empty buffer
  (\<open>setCode(value ?? "")\<close>).
\<close>

datatype operation = OpCurriculum | OpLesson | OpFeedback | OpLanguages | OpRun

datatype event =
    TopicChange jsstring
  | ConceptChange jsstring
  | CodeChange "jsstring option"
  | StdinChange jsstring
  | LanguageChange jsstring
  | Click button
  | Resolved operation jsval
  | Rejected operation jsval
  | Unmount

fun settle_resolved :: "operation \<Rightarrow> jsval \<Rightarrow> app \<Rightarrow> error + app" where
  "settle_resolved OpCurriculum d s = Inr (handleGenerate_resolved d s)"
| "settle_resolved OpLesson d s = Inr (handleExplain_resolved d s)"
| "settle_resolved OpFeedback d s = Inr (handleFeedback_resolved d s)"
| "settle_resolved OpLanguages d s = fetchLanguages_resolved d s"
| "settle_resolved OpRun d s = Inr (handleRun_resolved d s)"

fun settle_rejected :: "operation \<Rightarrow> jsval \<Rightarrow> app \<Rightarrow> app" where
  "settle_rejected OpCurriculum err s = handleGenerate_rejected err s"
| "settle_rejected OpLesson err s = handleExplain_rejected err s"
| "settle_rejected OpFeedback err s = handleFeedback_rejected err s"
| "settle_rejected OpLanguages err s = fetchLanguages_rejected err s"
| "settle_rejected OpRun err s = handleRun_rejected err s"

text \<open>
  One event: the new state and the requests issued by the code of \<open>App\<close>, or the
  exception of that code which no handler catches; the only one is the TypeError of
  the updater of the selection. What React renders from the new state is not modelled:
  \<open>step\<close> says nothing about an exception raised while the JSX is rendered after an
  event. The order of events is not restricted, so every sequence of state writes and
  requests of the component is one of the model.
\<close>

fun step :: "event \<Rightarrow> app \<Rightarrow> error + app \<times> request list" where
  "step (TopicChange v) s = Inr (s\<lparr>topic := v\<rparr>, [])"
| "step (ConceptChange v) s = Inr (s\<lparr>concept := v\<rparr>, [])"
| "step (CodeChange v) s = Inr (s\<lparr>code := (case v of None \<Rightarrow> [] | Some c \<Rightarrow> c)\<rparr>, [])"
| "step (StdinChange v) s = Inr (s\<lparr>stdin := v\<rparr>, [])"
| "step (LanguageChange v) s = Inr (select_onChange v s, [])"
| "step (Click b) s = Inr (click b s)"
| "step (Resolved p d) s =
     (case settle_resolved p d s of Inl e \<Rightarrow> Inl e | Inr s' \<Rightarrow> Inr (s', []))"
| "step (Rejected p err) s = Inr (settle_rejected p err s, [])"
| "step Unmount s = Inr (cleanup s, [])"

fun run :: "event list \<Rightarrow> app \<Rightarrow> error + app \<times> request list" where
  "run [] s = Inr (s, [])"
| "run (e # es) s =
     (case step e s of
        Inl x \<Rightarrow> Inl x
      | Inr (s', rs) \<Rightarrow>
          (case run es s' of Inl x \<Rightarrow> Inl x | Inr (s'', rs') \<Rightarrow> Inr (s'', rs @ rs')))"

text \<open>What each operation owns in the state: its result, its error and its loading flag.\<close>

fun region :: "operation \<Rightarrow> app \<Rightarrow> jsval list \<times> bool" where
  "region OpCurriculum s = ([curriculum s], topicLoading s)"
| "region OpLesson s = ([lesson s], lessonLoading s)"
| "region OpFeedback s = ([feedback s], feedbackLoading s)"
| "region OpLanguages s = ([languages s, selectedLanguage s, languageError s], languagesLoading s)"
| "region OpRun s = ([executionResult s], executionLoading s)"

text \<open>
  The keys of the languages of a fetched array, \<open>lang?.key\<close> for each, and the key of
  the first of them (\<open>undefined\<close> when there is none): the selection is a member of
  the fetched set when it is one of these keys.
\<close>

definition language_keys :: "jsval list \<Rightarrow> jsval list" where
  "language_keys xs = map (\<lambda>lang. get_opt lang (js ''key'')) xs"

definition first_key :: "jsval list \<Rightarrow> jsval" where
  "first_key xs = (case xs of [] \<Rightarrow> JUndefined | lang # rest \<Rightarrow> get_opt lang (js ''key''))"

subsection \<open>Example states and values\<close>

text \<open>
  A state with every input filled and nothing in flight, the same state with the four
  button operations and the languages fetch in flight, and the error of a call that
  the backend answered with status 429 and a body \<open>{error: "quota exceeded"}\<close>.
\<close>

definition example_idle :: app where
  "example_idle =
     initial_app\<lparr>topic := js ''sql'', concept := js ''joins'',
                 code := js ''print(1)'', stdin := js ''7''\<rparr>"

definition example_busy :: app where
  "example_busy =
     example_idle\<lparr>topicLoading := True, lessonLoading := True, feedbackLoading := True,
                  languagesLoading := True, executionLoading := True\<rparr>"

definition example_error :: jsval where
  "example_error =
     JObj [(js ''message'', JStr (js ''Request failed with status code 429'')),
           (js ''response'', JObj [(js ''data'', JObj [(js ''error'', JStr (js ''quota exceeded''))])])]"

text \<open>
  A languages response with two entries, the one of the specification, and a
  curriculum response.
\<close>

definition example_languages :: jsval where
  "example_languages =
     JObj [(js ''languages'',
            JArr [JObj [(js ''key'', JStr (js ''python'')), (js ''name'', JStr (js ''Python''))],
                  JObj [(js ''key'', JStr (js ''js'')), (js ''name'', JStr (js ''JavaScript''))]])]"

definition example_curriculum :: jsval where
  "example_curriculum = JObj [(js ''curriculum'', JObj [(js ''levels'', JArr [])])]"

section \<open>Auxiliary facts\<close>

lemmas start_defs = handleGenerate_def handleExplain_def handleFeedback_def handleRun_def

lemmas resolved_defs = handleGenerate_resolved_def handleExplain_resolved_def
  handleFeedback_resolved_def handleRun_resolved_def

lemmas rejected_defs = handleGenerate_rejected_def handleExplain_rejected_def
  handleFeedback_rejected_def handleRun_rejected_def fetchLanguages_rejected_def

lemma all_dropWhile_iff: "(\<forall>x\<in>set (dropWhile P xs). P x) \<longleftrightarrow> (\<forall>x\<in>set xs. P x)"
proof
  assume a: "\<forall>x\<in>set (dropWhile P xs). P x"
  have "dropWhile P xs = []"
  proof (rule ccontr)
    assume n: "dropWhile P xs \<noteq> []"
    then have "\<not> P (hd (dropWhile P xs))" by (rule hd_dropWhile)
    moreover have "hd (dropWhile P xs) \<in> set (dropWhile P xs)" using n by simp
    ultimately show False using a by blast
  qed
  then show "\<forall>x\<in>set xs. P x" by (simp add: dropWhile_eq_Nil_conv)
next
  assume "\<forall>x\<in>set xs. P x"
  then show "\<forall>x\<in>set (dropWhile P xs). P x" by (meson set_dropWhileD)
qed

text \<open>The guard \<open>!s.trim()\<close> holds exactly of the strings made of white space only.\<close>

lemma blank_iff: "blank s \<longleftrightarrow> (\<forall>c\<in>set s. is_white_space c)"
  unfolding blank_def trim_def
  by (simp add: all_dropWhile_iff)

text \<open>Nothing but the cleanup of the effect writes \<open>cancelled\<close>.\<close>

lemma cancelled_click: "cancelled (fst (click b s)) = cancelled s"
  by (cases b) (simp_all add: PrimaryButton_def start_defs)

lemma cancelled_rejected: "cancelled (settle_rejected p err s) = cancelled s"
  by (cases p) (simp_all add: rejected_defs)

lemma cancelled_resolved: "settle_resolved p d s = Inr s' \<Longrightarrow> cancelled s' = cancelled s"
  by (cases p)
    (auto simp: resolved_defs fetchLanguages_resolved_def Let_def split: sum.splits if_splits)

lemma cancelled_step: "cancelled s \<Longrightarrow> step e s = Inr (s', rs) \<Longrightarrow> cancelled s'"
proof (cases e)
  case (Click b)
  assume "cancelled s" "step e s = Inr (s', rs)"
  then show ?thesis using Click cancelled_click [of b s] by auto
next
  case (Resolved p d)
  assume "cancelled s" "step e s = Inr (s', rs)"
  then show ?thesis using Resolved cancelled_resolved [of p d s s'] by (auto split: sum.splits)
next
  case (Rejected p err)
  assume "cancelled s" "step e s = Inr (s', rs)"
  then show ?thesis using Rejected cancelled_rejected [of p err s] by auto
qed (auto simp: select_onChange_def cleanup_def)

lemma cancelled_run: "cancelled s \<Longrightarrow> run es s = Inr (s', rs) \<Longrightarrow> cancelled s'"
proof (induction es arbitrary: s rs)
  case Nil
  then show ?case by simp
next
  case (Cons e es)
  then show ?case
    by (auto split: sum.splits prod.splits dest: cancelled_step)
qed

text \<open>The language list and the selection are written by two events only.\<close>

lemma selectedLanguage_click: "selectedLanguage (fst (click b s)) = selectedLanguage s"
  by (cases b) (simp_all add: PrimaryButton_def start_defs)

lemma languages_click: "languages (fst (click b s)) = languages s"
  by (cases b) (simp_all add: PrimaryButton_def start_defs)

lemma selectedLanguage_rejected: "selectedLanguage (settle_rejected p err s) = selectedLanguage s"
  by (cases p) (simp_all add: rejected_defs)

lemma languages_rejected: "languages (settle_rejected p err s) = languages s"
  by (cases p) (simp_all add: rejected_defs)

lemma selectedLanguage_resolved:
  "p \<noteq> OpLanguages \<Longrightarrow> settle_resolved p d s = Inr s' \<Longrightarrow>
   selectedLanguage s' = selectedLanguage s \<and> languages s' = languages s"
  by (cases p) (auto simp: resolved_defs split: sum.splits)

lemma selectedLanguage_step:
  assumes "step e s = Inr (s', rs)"
    and "\<forall>v. e \<noteq> LanguageChange v" and "\<forall>d. e \<noteq> Resolved OpLanguages d"
  shows "selectedLanguage s' = selectedLanguage s \<and> languages s' = languages s"
proof (cases e)
  case (Click b)
  then show ?thesis using assms selectedLanguage_click [of b s] languages_click [of b s] by auto
next
  case (Resolved p d)
  then have "p \<noteq> OpLanguages" using assms by auto
  then show ?thesis
    using Resolved assms(1) selectedLanguage_resolved [of p d s s'] by (auto split: sum.splits)
next
  case (Rejected p err)
  then show ?thesis
    using assms selectedLanguage_rejected [of p err s] languages_rejected [of p err s] by auto
qed (use assms in \<open>auto simp: cleanup_def\<close>)

text \<open>
  Until a languages fetch resolves the list is empty, the \<open>select\<close> is disabled, and
  the selection is the initial one.
\<close>

lemma unfetched_step:
  assumes "step e s = Inr (s', rs)" and "\<forall>d. e \<noteq> Resolved OpLanguages d"
    and "selectedLanguage s = JStr (js ''python'') \<and> languages s = JArr []"
  shows "selectedLanguage s' = JStr (js ''python'') \<and> languages s' = JArr []"
proof (cases "\<exists>v. e = LanguageChange v")
  case True
  then show ?thesis using assms by (auto simp: select_onChange_def)
next
  case False
  then show ?thesis using assms selectedLanguage_step [of e s s' rs] by auto
qed

lemma unfetched_run:
  assumes "run es s = Inr (s', rs)" and "\<forall>d. Resolved OpLanguages d \<notin> set es"
    and "selectedLanguage s = JStr (js ''python'') \<and> languages s = JArr []"
  shows "selectedLanguage s' = JStr (js ''python'') \<and> languages s' = JArr []"
  using assms
proof (induction es arbitrary: s rs)
  case Nil
  then show ?case by simp
next
  case (Cons e es)
  from Cons.prems(1) obtain s1 rs1 rs2 where
    st: "step e s = Inr (s1, rs1)" and rn: "run es s1 = Inr (s', rs2)"
    by (auto split: sum.splits prod.splits)
  from Cons.prems(2) have ne: "\<forall>d. e \<noteq> Resolved OpLanguages d"
    and nes: "\<forall>d. Resolved OpLanguages d \<notin> set es" by auto
  from unfetched_step [OF st ne Cons.prems(3)]
  show ?case using Cons.IH [OF rn nes] by simp
qed

text \<open>The updater of the selection on an array of objects.\<close>

lemma strict_eq_imp_eq: "strict_eq a b \<Longrightarrow> a = b"
  by (cases a; cases b) simp_all

lemma get_prop_get_opt:
  "l \<noteq> JNull \<Longrightarrow> l \<noteq> JUndefined \<Longrightarrow> get_prop l p = Inr (get_opt l p)"
  by (cases l) (simp_all add: get_opt_def)

lemma some_key_eq_list_ex:
  "\<forall>l\<in>set xs. l \<noteq> JNull \<and> l \<noteq> JUndefined \<Longrightarrow>
   some_key_eq xs cur = Inr (list_ex (\<lambda>k. strict_eq k cur) (language_keys xs))"
  by (induction xs) (simp_all add: language_keys_def get_prop_get_opt)

lemma first_key_or_array:
  "first_key_or (JArr xs) cur = Inr (js_or (js_or (first_key xs) cur) (JStr (js ''python'')))"
  by (cases xs) (simp_all add: first_key_or_def first_key_def get_opt_def)

lemma select_language_array:
  assumes "\<forall>l\<in>set xs. l \<noteq> JNull \<and> l \<noteq> JUndefined"
  shows "select_language (JArr xs) cur =
     Inr (if truthy cur \<and> list_ex (\<lambda>k. strict_eq k cur) (language_keys xs) then cur
          else if truthy (first_key xs) then first_key xs
          else if truthy cur then cur
          else JStr (js ''python''))"
  using assms
  by (simp add: select_language_def some_key_eq_list_ex first_key_or_array js_or_def)

lemma first_key_member: "truthy (first_key xs) \<Longrightarrow> first_key xs \<in> set (language_keys xs)"
  by (cases xs) (simp_all add: first_key_def language_keys_def)

lemma kept_key_member:
  "list_ex (\<lambda>k. strict_eq k cur) (language_keys xs) \<Longrightarrow> cur \<in> set (language_keys xs)"
  by (auto simp: list_ex_iff dest: strict_eq_imp_eq)

text \<open>No event of a mounted \<open>App\<close> issues the languages request.\<close>

lemma click_no_listLanguages: "listLanguages \<notin> set (snd (click b s))"
  by (cases b)
    (simp_all add: PrimaryButton_def start_defs listLanguages_def API_get_def API_post_def
      generateCurriculum_def generateLesson_def getFeedback_def runCode_def)

lemma step_no_listLanguages: "step e s = Inr (s', rs) \<Longrightarrow> listLanguages \<notin> set rs"
proof (cases e)
  case (Click b)
  assume "step e s = Inr (s', rs)"
  then show ?thesis using Click click_no_listLanguages [of b s] by auto
qed (auto split: sum.splits)

text \<open>A rejection writes the region of its own operation only.\<close>

lemma region_rejected: "p \<noteq> q \<Longrightarrow> region q (settle_rejected p err s) = region q s"
  by (cases p; cases q) (simp_all add: rejected_defs)

lemma inputs_rejected:
  "topic (settle_rejected p err s) = topic s \<and> concept (settle_rejected p err s) = concept s
   \<and> code (settle_rejected p err s) = code s \<and> stdin (settle_rejected p err s) = stdin s"
  by (cases p) (simp_all add: rejected_defs)

lemma truthy_run_fallback: "truthy (run_fallback err)"
  by (simp add: run_fallback_def js_or_def js_def)

text \<open>The example inputs are not blank.\<close>

lemma example_idle_not_blank:
  "\<not> blank (topic example_idle) \<and> \<not> blank (concept example_idle) \<and> \<not> blank (code example_idle)"
  by (simp add: example_idle_def initial_app_def blank_def trim_def is_white_space_def js_def)

section \<open>Teardown during the languages fetch\<close>

text \<open>
  Claim C4. If \<open>App\<close> is torn down while the languages fetch is in flight, then,
  whatever else happens afterwards, the resolution of the fetch and its rejection
  write nothing: the whole state, and with it the language list, the selected
  language, the language error and the languages loading flag, is as it was, and no
  request is issued.
\<close>

theorem torn_down_fetch_writes_nothing:
  assumes "run (Unmount # es) s = Inr (s', rs)"
  shows "step (Resolved OpLanguages d) s' = Inr (s', [])
         \<and> step (Rejected OpLanguages err) s' = Inr (s', [])"
proof -
  from assms obtain rs' where "run es (cleanup s) = Inr (s', rs')"
    by (auto split: sum.splits prod.splits)
  moreover have "cancelled (cleanup s)" by (simp add: cleanup_def)
  ultimately have "cancelled s'" by (rule cancelled_run [rotated])
  then show ?thesis
    by (simp add: fetchLanguages_resolved_def fetchLanguages_rejected_def)
qed

text \<open>
  The component is torn down right after mounting, a run of code settles, and then
  the languages arrive with one entry: nothing is written.
\<close>

theorem torn_down_fetch_writes_nothing_witness:
  "run [Unmount, Resolved OpRun JNull] (fst mount)
     = Inr (initial_app\<lparr>languagesLoading := True, cancelled := True,
                        executionResult := JNull, executionLoading := False\<rparr>, [])
   \<and> step (Resolved OpLanguages
              (JObj [(js ''languages'', JArr [JObj [(js ''key'', JStr (js ''ruby''))]])]))
        (initial_app\<lparr>languagesLoading := True, cancelled := True,
                      executionResult := JNull, executionLoading := False\<rparr>)
     = Inr (initial_app\<lparr>languagesLoading := True, cancelled := True,
                        executionResult := JNull, executionLoading := False\<rparr>, [])"
proof -
  have r: "run [Unmount, Resolved OpRun JNull] (fst mount)
     = Inr (initial_app\<lparr>languagesLoading := True, cancelled := True,
                        executionResult := JNull, executionLoading := False\<rparr>, [])"
    by (simp add: mount_def fetchLanguages_def cleanup_def handleRun_resolved_def initial_app_def)
  show ?thesis
    using r torn_down_fetch_writes_nothing [OF r] by simp
qed

section \<open>Blank input\<close>

text \<open>
  Claim C6. When the input of an operation is empty or made of white space only,
  triggering the operation, by calling its handler or by clicking its button, issues
  no request and leaves the whole state as it was.
\<close>

theorem blank_input_ignored:
  "((\<forall>c\<in>set (topic s). is_white_space c) \<longrightarrow>
       handleGenerate s = (s, []) \<and> click BtnGenerate s = (s, []))
   \<and> ((\<forall>c\<in>set (concept s). is_white_space c) \<longrightarrow>
       handleExplain s = (s, []) \<and> click BtnExplain s = (s, []))
   \<and> ((\<forall>c\<in>set (code s). is_white_space c) \<longrightarrow>
       handleRun s = (s, []) \<and> click BtnRun s = (s, [])
       \<and> handleFeedback s = (s, []) \<and> click BtnFeedback s = (s, []))"
  by (simp add: blank_iff [symmetric] start_defs PrimaryButton_def)

text \<open>
  An empty topic, a concept of a TAB and an ideographic space, and a code buffer of
  one space and a line feed.
\<close>

theorem blank_input_ignored_witness:
  "blank (topic (initial_app\<lparr>concept := [9, 12288], code := [32, 10]\<rparr>))
   \<and> blank (concept (initial_app\<lparr>concept := [9, 12288], code := [32, 10]\<rparr>))
   \<and> blank (code (initial_app\<lparr>concept := [9, 12288], code := [32, 10]\<rparr>))
   \<and> click BtnGenerate (initial_app\<lparr>concept := [9, 12288], code := [32, 10]\<rparr>)
       = (initial_app\<lparr>concept := [9, 12288], code := [32, 10]\<rparr>, [])
   \<and> click BtnExplain (initial_app\<lparr>concept := [9, 12288], code := [32, 10]\<rparr>)
       = (initial_app\<lparr>concept := [9, 12288], code := [32, 10]\<rparr>, [])
   \<and> click BtnRun (initial_app\<lparr>concept := [9, 12288], code := [32, 10]\<rparr>)
       = (initial_app\<lparr>concept := [9, 12288], code := [32, 10]\<rparr>, [])
   \<and> click BtnFeedback (initial_app\<lparr>concept := [9, 12288], code := [32, 10]\<rparr>)
       = (initial_app\<lparr>concept := [9, 12288], code := [32, 10]\<rparr>, [])"
proof -
  have h: "blank (topic (initial_app\<lparr>concept := [9, 12288], code := [32, 10]\<rparr>))
   \<and> blank (concept (initial_app\<lparr>concept := [9, 12288], code := [32, 10]\<rparr>))
   \<and> blank (code (initial_app\<lparr>concept := [9, 12288], code := [32, 10]\<rparr>))"
    by (simp add: initial_app_def blank_def trim_def is_white_space_def)
  show ?thesis
    using h blank_input_ignored [of "initial_app\<lparr>concept := [9, 12288], code := [32, 10]\<rparr>"]
    by (simp only: blank_iff) blast
qed

section \<open>A successful run of code\<close>

text \<open>
  Claim C9. When \<open>runCode\<close> resolves, the body of the response becomes the execution
  result as it is: no field is read, changed or dropped; the only other write clears
  the loading flag of the run.
\<close>

theorem run_result_verbatim:
  "step (Resolved OpRun d) s = Inr (s\<lparr>executionResult := d, executionLoading := False\<rparr>, [])
   \<and> executionResult (handleRun_resolved d s) = d"
  by (simp add: handleRun_resolved_def)

text \<open>The body \<open>{status: {id: 3}, stdout: "hi\n"}\<close> of the specification.\<close>

theorem run_result_verbatim_witness:
  "executionResult
     (handleRun_resolved
        (JObj [(js ''status'', JObj [(js ''id'', JNum 3)]), (js ''stdout'', JStr (js ''hi'' @ [10]))])
        initial_app)
   = JObj [(js ''status'', JObj [(js ''id'', JNum 3)]), (js ''stdout'', JStr (js ''hi'' @ [10]))]"
  using run_result_verbatim
    [of "JObj [(js ''status'', JObj [(js ''id'', JNum 3)]), (js ''stdout'', JStr (js ''hi'' @ [10]))]"
        initial_app]
  by simp

section \<open>Re-triggering while loading\<close>

text \<open>
  Claim C2. While the loading flag of an operation is true, triggering the operation
  again issues no request and changes nothing: the button of each of the four
  operations that have one is disabled by \<open>PrimaryButton\<close>, so a click does not reach
  the handler; and the languages fetch is issued by the mount effect only, no event of
  a mounted \<open>App\<close> issues it again.
\<close>

theorem loading_blocks_retrigger:
  "(topicLoading s \<longrightarrow> click BtnGenerate s = (s, []))
   \<and> (lessonLoading s \<longrightarrow> click BtnExplain s = (s, []))
   \<and> (feedbackLoading s \<longrightarrow> click BtnFeedback s = (s, []))
   \<and> (executionLoading s \<longrightarrow> click BtnRun s = (s, []))
   \<and> (\<forall>e s' rs. step e s = Inr (s', rs) \<longrightarrow> listLanguages \<notin> set rs)"
  using step_no_listLanguages [of _ s] by (simp add: PrimaryButton_def)

text \<open>
  With every operation in flight and every input filled the four clicks are ignored;
  a click that is not ignored issues the curriculum request, not the languages one.
\<close>

theorem loading_blocks_retrigger_witness:
  "topicLoading example_busy \<and> lessonLoading example_busy
   \<and> feedbackLoading example_busy \<and> executionLoading example_busy
   \<and> \<not> blank (topic example_busy) \<and> \<not> blank (concept example_busy)
   \<and> \<not> blank (code example_busy)
   \<and> click BtnGenerate example_busy = (example_busy, [])
   \<and> click BtnExplain example_busy = (example_busy, [])
   \<and> click BtnFeedback example_busy = (example_busy, [])
   \<and> click BtnRun example_busy = (example_busy, [])
   \<and> step (Click BtnGenerate) example_idle
       = Inr (example_idle\<lparr>topicLoading := True\<rparr>, [generateCurriculum (JStr (js ''sql''))])
   \<and> listLanguages \<notin> set [generateCurriculum (JStr (js ''sql''))]"
proof -
  note t = loading_blocks_retrigger [of example_busy]
  note u = loading_blocks_retrigger [of example_idle]
  have l: "topicLoading example_busy \<and> lessonLoading example_busy
   \<and> feedbackLoading example_busy \<and> executionLoading example_busy"
    by (simp add: example_busy_def)
  have n: "\<not> blank (topic example_busy) \<and> \<not> blank (concept example_busy)
   \<and> \<not> blank (code example_busy)"
    using example_idle_not_blank by (simp add: example_busy_def)
  have st: "step (Click BtnGenerate) example_idle
       = Inr (example_idle\<lparr>topicLoading := True\<rparr>, [generateCurriculum (JStr (js ''sql''))])"
    using example_idle_not_blank
    by (simp add: PrimaryButton_def handleGenerate_def) (simp add: example_idle_def initial_app_def)
  have c: "click BtnGenerate example_busy = (example_busy, [])
   \<and> click BtnExplain example_busy = (example_busy, [])
   \<and> click BtnFeedback example_busy = (example_busy, [])
   \<and> click BtnRun example_busy = (example_busy, [])"
    using t l by blast
  have x: "listLanguages \<notin> set [generateCurriculum (JStr (js ''sql''))]"
    using u st by blast
  show ?thesis using l n st c x by blast
qed

text \<open>
  The guard is the button's: a handler called while its flag is true, on an input that
  is not blank, issues its request all the same.
\<close>

lemma handlers_do_not_test_loading:
  "topicLoading s \<Longrightarrow> \<not> blank (topic s) \<Longrightarrow>
     snd (handleGenerate s) = [generateCurriculum (JStr (topic s))]"
  "lessonLoading s \<Longrightarrow> \<not> blank (concept s) \<Longrightarrow>
     snd (handleExplain s) = [generateLesson (JStr (concept s))]"
  "feedbackLoading s \<Longrightarrow> \<not> blank (code s) \<Longrightarrow>
     snd (handleFeedback s) = [getFeedback (JStr (code s))]"
  "executionLoading s \<Longrightarrow> \<not> blank (code s) \<Longrightarrow> length (snd (handleRun s)) = 1"
  by (simp_all add: start_defs)

section \<open>The requests\<close>

text \<open>
  Claim C7. Every operation of the API client issues one request against the base
  address \<open>http://127.0.0.1:8000/api/\<close>: \<open>generateCurriculum(topic)\<close> posts \<open>{topic}\<close>
  to \<open>curriculum/\<close>, \<open>generateLesson(concept)\<close> posts \<open>{concept}\<close> to \<open>lesson/\<close>,
  \<open>getFeedback(code)\<close> posts \<open>{code}\<close> to \<open>feedback/\<close>, \<open>listLanguages()\<close> gets
  \<open>execute/\<close>, and \<open>runCode\<close> posts its payload to \<open>execute/\<close>. Mounting issues the
  languages request, and an accepted click issues exactly the request of its operation
  on the current input; for a run the body is \<open>{language, source_code, stdin}\<close>.
\<close>

theorem api_requests:
  "generateCurriculum t =
     \<lparr>req_method = POST, req_baseURL = js ''http://127.0.0.1:8000/api/'',
      req_url = js ''curriculum/'', req_data = Some (JObj [(js ''topic'', t)])\<rparr>
   \<and> generateLesson t =
     \<lparr>req_method = POST, req_baseURL = js ''http://127.0.0.1:8000/api/'',
      req_url = js ''lesson/'', req_data = Some (JObj [(js ''concept'', t)])\<rparr>
   \<and> getFeedback t =
     \<lparr>req_method = POST, req_baseURL = js ''http://127.0.0.1:8000/api/'',
      req_url = js ''feedback/'', req_data = Some (JObj [(js ''code'', t)])\<rparr>
   \<and> listLanguages =
     \<lparr>req_method = GET, req_baseURL = js ''http://127.0.0.1:8000/api/'',
      req_url = js ''execute/'', req_data = None\<rparr>
   \<and> runCode t =
     \<lparr>req_method = POST, req_baseURL = js ''http://127.0.0.1:8000/api/'',
      req_url = js ''execute/'', req_data = Some t\<rparr>
   \<and> snd mount = [listLanguages]
   \<and> (\<not> blank (topic s) \<and> \<not> topicLoading s \<longrightarrow>
        snd (click BtnGenerate s) = [generateCurriculum (JStr (topic s))])
   \<and> (\<not> blank (concept s) \<and> \<not> lessonLoading s \<longrightarrow>
        snd (click BtnExplain s) = [generateLesson (JStr (concept s))])
   \<and> (\<not> blank (code s) \<and> \<not> feedbackLoading s \<longrightarrow>
        snd (click BtnFeedback s) = [getFeedback (JStr (code s))])
   \<and> (\<not> blank (code s) \<and> \<not> executionLoading s \<longrightarrow>
        snd (click BtnRun s) =
          [\<lparr>req_method = POST, req_baseURL = js ''http://127.0.0.1:8000/api/'',
            req_url = js ''execute/'',
            req_data = Some (JObj [(js ''language'', selectedLanguage s),
                                   (js ''source_code'', JStr (code s)),
                                   (js ''stdin'', JStr (stdin s))])\<rparr>])"
  by (simp add: generateCurriculum_def generateLesson_def getFeedback_def listLanguages_def
      runCode_def API_post_def API_get_def API_baseURL_def mount_def fetchLanguages_def
      PrimaryButton_def start_defs)

text \<open>The four clicks on the state with every input filled and nothing in flight.\<close>

theorem api_requests_witness:
  "\<not> blank (topic example_idle) \<and> \<not> blank (concept example_idle) \<and> \<not> blank (code example_idle)
   \<and> \<not> topicLoading example_idle \<and> \<not> lessonLoading example_idle
   \<and> \<not> feedbackLoading example_idle \<and> \<not> executionLoading example_idle
   \<and> snd (click BtnGenerate example_idle) =
        [\<lparr>req_method = POST, req_baseURL = js ''http://127.0.0.1:8000/api/'',
          req_url = js ''curriculum/'',
          req_data = Some (JObj [(js ''topic'', JStr (js ''sql''))])\<rparr>]
   \<and> snd (click BtnExplain example_idle) =
        [\<lparr>req_method = POST, req_baseURL = js ''http://127.0.0.1:8000/api/'',
          req_url = js ''lesson/'',
          req_data = Some (JObj [(js ''concept'', JStr (js ''joins''))])\<rparr>]
   \<and> snd (click BtnFeedback example_idle) =
        [\<lparr>req_method = POST, req_baseURL = js ''http://127.0.0.1:8000/api/'',
          req_url = js ''feedback/'',
          req_data = Some (JObj [(js ''code'', JStr (js ''print(1)''))])\<rparr>]
   \<and> snd (click BtnRun example_idle) =
        [\<lparr>req_method = POST, req_baseURL = js ''http://127.0.0.1:8000/api/'',
          req_url = js ''execute/'',
          req_data = Some (JObj [(js ''language'', JStr (js ''python'')),
                                 (js ''source_code'', JStr (js ''print(1)'')),
                                 (js ''stdin'', JStr (js ''7''))])\<rparr>]"
proof -
  note nb = example_idle_not_blank
  have f: "\<not> topicLoading example_idle \<and> \<not> lessonLoading example_idle
   \<and> \<not> feedbackLoading example_idle \<and> \<not> executionLoading example_idle"
    by (simp add: example_idle_def initial_app_def)
  have v: "topic example_idle = js ''sql''" "concept example_idle = js ''joins''"
    "code example_idle = js ''print(1)''" "stdin example_idle = js ''7''"
    "selectedLanguage example_idle = JStr (js ''python'')"
    by (simp_all add: example_idle_def initial_app_def)
  have g: "snd (click BtnGenerate example_idle) = [generateCurriculum (JStr (js ''sql''))]"
    using api_requests [of JNull example_idle] nb f by (simp only: v) blast
  have e: "snd (click BtnExplain example_idle) = [generateLesson (JStr (js ''joins''))]"
    using api_requests [of JNull example_idle] nb f by (simp only: v) blast
  have b: "snd (click BtnFeedback example_idle) = [getFeedback (JStr (js ''print(1)''))]"
    using api_requests [of JNull example_idle] nb f by (simp only: v) blast
  have r: "snd (click BtnRun example_idle) =
        [\<lparr>req_method = POST, req_baseURL = js ''http://127.0.0.1:8000/api/'',
          req_url = js ''execute/'',
          req_data = Some (JObj [(js ''language'', JStr (js ''python'')),
                                 (js ''source_code'', JStr (js ''print(1)'')),
                                 (js ''stdin'', JStr (js ''7''))])\<rparr>]"
    using api_requests [of JNull example_idle] nb f by (simp only: v) blast
  have g': "generateCurriculum (JStr (js ''sql'')) =
       \<lparr>req_method = POST, req_baseURL = js ''http://127.0.0.1:8000/api/'',
          req_url = js ''curriculum/'',
          req_data = Some (JObj [(js ''topic'', JStr (js ''sql''))])\<rparr>"
    using api_requests [of "JStr (js ''sql'')" example_idle] by blast
  have e': "generateLesson (JStr (js ''joins'')) =
       \<lparr>req_method = POST, req_baseURL = js ''http://127.0.0.1:8000/api/'',
          req_url = js ''lesson/'',
          req_data = Some (JObj [(js ''concept'', JStr (js ''joins''))])\<rparr>"
    using api_requests [of "JStr (js ''joins'')" example_idle] by blast
  have b': "getFeedback (JStr (js ''print(1)'')) =
       \<lparr>req_method = POST, req_baseURL = js ''http://127.0.0.1:8000/api/'',
          req_url = js ''feedback/'',
          req_data = Some (JObj [(js ''code'', JStr (js ''print(1)''))])\<rparr>"
    using api_requests [of "JStr (js ''print(1)'')" example_idle] by blast
  show ?thesis
    unfolding g e b r g' e' b' using nb f by blast
qed

section \<open>A failure and the rest of the session\<close>

text \<open>
  Claim C8 asks that a failure of one operation only replaces the result region of
  that operation by an error message, leaves the results, errors and loading flags of
  the other operations as they were, and never propagates further or terminates the
  session. The code does not meet it. When the languages call resolves on the mounted
  component with a list that has a \<open>null\<close> entry, or with an object in place of the
  list, the updater of the selection raises a TypeError that no handler catches: no
  state is returned, no error message is stored, and the events that follow are lost
  with it.
\<close>

theorem malformed_languages_terminate:
  "step (Resolved OpLanguages (JObj [(js ''languages'', JArr [JNull])])) (fst mount)
     = Inl TypeError
   \<and> step (Resolved OpLanguages
              (JObj [(js ''languages'',
                      JObj [(js ''python'', JObj [(js ''name'', JStr (js ''Python''))])])]))
        (fst mount)
     = Inl TypeError
   \<and> run [Resolved OpLanguages (JObj [(js ''languages'', JArr [JNull])]),
           TopicChange (js ''sql''), Click BtnGenerate] (fst mount)
     = Inl TypeError
   \<and> languagesLoading (fst mount)
   \<and> languageError (fst mount) = JNull"
  by (simp add: mount_def fetchLanguages_def fetchLanguages_resolved_def initial_app_def
      select_language_def get_opt_def js_or_def js_def)

text \<open>
  What does hold, of the rejection of a call: it is caught where the call was made,
  and the handler writes the result (for the languages fetch, the language error) and
  the loading flag of its own operation only.
\<close>

lemma rejection_frame:
  "(\<forall>q. q \<noteq> p \<longrightarrow> region q (settle_rejected p err s) = region q s)
   \<and> topic (settle_rejected p err s) = topic s
   \<and> concept (settle_rejected p err s) = concept s
   \<and> code (settle_rejected p err s) = code s
   \<and> stdin (settle_rejected p err s) = stdin s
   \<and> cancelled (settle_rejected p err s) = cancelled s
   \<and> region OpCurriculum (settle_rejected OpCurriculum err s)
       = ([JObj [(js ''error'', JStr (js ''failed to fetch''))]], False)
   \<and> region OpLesson (settle_rejected OpLesson err s)
       = ([JObj [(js ''error'', JStr (js ''failed to fetch''))]], False)
   \<and> region OpFeedback (settle_rejected OpFeedback err s)
       = ([JObj [(js ''error'', JStr (js ''failed to fetch''))]], False)
   \<and> region OpRun (settle_rejected OpRun err s)
       = ([JObj [(js ''error'', run_fallback err)]], False)
   \<and> (\<not> cancelled s \<longrightarrow>
        region OpLanguages (settle_rejected OpLanguages err s) =
          ([languages s, selectedLanguage s,
            JStr (js ''Unable to load Judge0 languages. Check your backend connection.'')],
           False))"
  using region_rejected [of p _ err s] inputs_rejected [of p err s] cancelled_rejected [of p err s]
  by (simp add: rejected_defs failed_to_fetch_def)

section \<open>The default language\<close>

text \<open>
  Claim C10. The fixed default language key is \<open>"python"\<close>. It is the selection of
  the initial state, and it is still the selection after any sequence of events in
  which no languages fetch resolves (until then the list is empty and the \<open>select\<close>
  is disabled). It is also what the selection falls back to when the fetched set is
  empty and the current selection is empty.
\<close>

theorem default_language_python:
  "selectedLanguage initial_app = JStr (js ''python'')
   \<and> (\<forall>es s rs. (\<forall>d. Resolved OpLanguages d \<notin> set es) \<and> run es (fst mount) = Inr (s, rs)
         \<longrightarrow> selectedLanguage s = JStr (js ''python''))
   \<and> (\<forall>cur. \<not> truthy cur \<longrightarrow> select_language (JArr []) cur = Inr (JStr (js ''python'')))
   \<and> (\<forall>d s. \<not> cancelled s \<and> \<not> truthy (selectedLanguage s)
           \<and> js_or (get_opt d (js ''languages'')) (JArr []) = JArr []
         \<longrightarrow> (\<exists>s'. step (Resolved OpLanguages d) s = Inr (s', [])
                \<and> languages s' = JArr []
                \<and> selectedLanguage s' = JStr (js ''python'')))"
proof -
  have a: "selectedLanguage initial_app = JStr (js ''python'')"
    by (simp add: initial_app_def)
  have i: "selectedLanguage (fst mount) = JStr (js ''python'') \<and> languages (fst mount) = JArr []"
    by (simp add: mount_def fetchLanguages_def initial_app_def)
  have b: "\<forall>es s rs. (\<forall>d. Resolved OpLanguages d \<notin> set es) \<and> run es (fst mount) = Inr (s, rs)
         \<longrightarrow> selectedLanguage s = JStr (js ''python'')"
    using unfetched_run [OF _ _ i] by blast
  have c: "\<forall>cur. \<not> truthy cur \<longrightarrow> select_language (JArr []) cur = Inr (JStr (js ''python''))"
    by (simp add: select_language_def first_key_or_def get_opt_def js_or_def)
  have d: "\<forall>d s. \<not> cancelled s \<and> \<not> truthy (selectedLanguage s)
           \<and> js_or (get_opt d (js ''languages'')) (JArr []) = JArr []
         \<longrightarrow> (\<exists>s'. step (Resolved OpLanguages d) s = Inr (s', [])
                \<and> languages s' = JArr []
                \<and> selectedLanguage s' = JStr (js ''python''))"
    using c by (simp add: fetchLanguages_resolved_def)
  show ?thesis using a b c d by blast
qed

text \<open>
  The user types code, tries the disabled \<open>select\<close>, runs the code, the languages
  fetch is rejected, and the \<open>select\<close> is tried again: the selection is still
  \<open>"python"\<close>. An empty selection and a response without languages give \<open>"python"\<close>.
\<close>

theorem default_language_python_witness:
  "run [CodeChange (Some (js ''print(1)'')), LanguageChange (js ''ruby''), Click BtnRun,
        Rejected OpLanguages example_error, LanguageChange (js ''ruby'')] (fst mount)
     = Inr (initial_app\<lparr>code := js ''print(1)'', executionLoading := True,
             languageError :=
               JStr (js ''Unable to load Judge0 languages. Check your backend connection.'')\<rparr>,
            [runCode (JObj [(js ''language'', JStr (js ''python'')),
                            (js ''source_code'', JStr (js ''print(1)'')),
                            (js ''stdin'', JStr [])])])
   \<and> selectedLanguage
        (initial_app\<lparr>code := js ''print(1)'', executionLoading := True,
             languageError :=
               JStr (js ''Unable to load Judge0 languages. Check your backend connection.'')\<rparr>)
       = JStr (js ''python'')
   \<and> \<not> truthy (JStr [])
   \<and> select_language (JArr []) (JStr []) = Inr (JStr (js ''python''))
   \<and> (\<exists>s'. step (Resolved OpLanguages (JObj [])) ((fst mount)\<lparr>selectedLanguage := JStr []\<rparr>)
              = Inr (s', [])
          \<and> languages s' = JArr [] \<and> selectedLanguage s' = JStr (js ''python''))"
proof -
  let ?es = "[CodeChange (Some (js ''print(1)'')), LanguageChange (js ''ruby''), Click BtnRun,
        Rejected OpLanguages example_error, LanguageChange (js ''ruby'')]"
  let ?s = "initial_app\<lparr>code := js ''print(1)'', executionLoading := True,
             languageError :=
               JStr (js ''Unable to load Judge0 languages. Check your backend connection.'')\<rparr>"
  note t = default_language_python
  have nb: "\<not> blank (js ''print(1)'')"
    by (simp add: blank_def trim_def is_white_space_def js_def)
  have r: "run ?es (fst mount)
     = Inr (?s, [runCode (JObj [(js ''language'', JStr (js ''python'')),
                            (js ''source_code'', JStr (js ''print(1)'')),
                            (js ''stdin'', JStr [])])])"
    using nb
    by (simp add: mount_def fetchLanguages_def select_onChange_def PrimaryButton_def
        handleRun_def fetchLanguages_rejected_def initial_app_def)
  have n: "\<forall>d. Resolved OpLanguages d \<notin> set ?es" by simp
  have a: "selectedLanguage ?s = JStr (js ''python'')"
    using t r n by blast
  have f: "\<not> truthy (JStr [])" by simp
  have b: "select_language (JArr []) (JStr []) = Inr (JStr (js ''python''))"
    using t f by blast
  have h: "\<not> cancelled ((fst mount)\<lparr>selectedLanguage := JStr []\<rparr>)
      \<and> \<not> truthy (selectedLanguage ((fst mount)\<lparr>selectedLanguage := JStr []\<rparr>))
      \<and> js_or (get_opt (JObj []) (js ''languages'')) (JArr []) = JArr []"
    by (simp add: mount_def fetchLanguages_def initial_app_def get_opt_def js_or_def)
  have c: "\<exists>s'. step (Resolved OpLanguages (JObj [])) ((fst mount)\<lparr>selectedLanguage := JStr []\<rparr>)
              = Inr (s', [])
          \<and> languages s' = JArr [] \<and> selectedLanguage s' = JStr (js ''python'')"
    using t h by blast
  show ?thesis using r a f b c by blast
qed

section \<open>The selection after a languages fetch\<close>

text \<open>
  Claim C1, as the code has it. When the languages fetch resolves before teardown
  with an array of language objects, the resolution stores the array and re-evaluates
  the selection once: a current key that is not empty and equals the key of a returned
  language is kept; otherwise the selection becomes the key of the first returned
  language when that key is present and not empty, else it stays the current key when
  that is not empty, else it becomes \<open>"python"\<close>. Afterwards the selection is the key
  of a returned language whenever a key was kept or the first returned language has a
  key that is not empty. No event other than a resolution of the fetch and the user's
  own choice writes the selection.
\<close>

theorem language_selection_after_fetch:
  assumes "\<not> cancelled s"
    and "js_or (get_opt d (js ''languages'')) (JArr []) = JArr xs"
    and "\<forall>l\<in>set xs. l \<noteq> JNull \<and> l \<noteq> JUndefined"
  shows "\<exists>s'. step (Resolved OpLanguages d) s = Inr (s', [])
      \<and> languages s' = JArr xs
      \<and> selectedLanguage s' =
          (if truthy (selectedLanguage s)
              \<and> list_ex (\<lambda>k. strict_eq k (selectedLanguage s)) (language_keys xs)
           then selectedLanguage s
           else if truthy (first_key xs) then first_key xs
           else if truthy (selectedLanguage s) then selectedLanguage s
           else JStr (js ''python''))
      \<and> ((truthy (selectedLanguage s)
              \<and> list_ex (\<lambda>k. strict_eq k (selectedLanguage s)) (language_keys xs))
           \<or> truthy (first_key xs)
          \<longrightarrow> selectedLanguage s' \<in> set (language_keys xs))
      \<and> (\<forall>e s1 s2 rs. step e s1 = Inr (s2, rs) \<and> (\<forall>v. e \<noteq> LanguageChange v)
              \<and> (\<forall>d'. e \<noteq> Resolved OpLanguages d')
            \<longrightarrow> selectedLanguage s2 = selectedLanguage s1)"
proof -
  let ?cur = "selectedLanguage s"
  let ?sel = "if truthy ?cur \<and> list_ex (\<lambda>k. strict_eq k ?cur) (language_keys xs) then ?cur
           else if truthy (first_key xs) then first_key xs
           else if truthy ?cur then ?cur
           else JStr (js ''python'')"
  let ?s' = "s\<lparr>languages := JArr xs, selectedLanguage := ?sel,
                languageError := JNull, languagesLoading := False\<rparr>"
  have sel: "select_language (JArr xs) ?cur = Inr ?sel"
    using assms(3) by (rule select_language_array)
  have st: "step (Resolved OpLanguages d) s = Inr (?s', [])"
    using assms(1,2) sel by (simp add: fetchLanguages_resolved_def)
  have mem: "(truthy ?cur \<and> list_ex (\<lambda>k. strict_eq k ?cur) (language_keys xs))
           \<or> truthy (first_key xs) \<longrightarrow> ?sel \<in> set (language_keys xs)"
    using first_key_member [of xs] kept_key_member [of ?cur xs] by auto
  have fr: "\<forall>e s1 s2 rs. step e s1 = Inr (s2, rs) \<and> (\<forall>v. e \<noteq> LanguageChange v)
              \<and> (\<forall>d'. e \<noteq> Resolved OpLanguages d')
            \<longrightarrow> selectedLanguage s2 = selectedLanguage s1"
    using selectedLanguage_step by blast
  have "languages ?s' = JArr xs" and "selectedLanguage ?s' = ?sel" by simp_all
  with st mem fr show ?thesis by (intro exI [of _ ?s']) simp
qed

lemma example_languages_array:
  "js_or (get_opt example_languages (js ''languages'')) (JArr []) =
     JArr [JObj [(js ''key'', JStr (js ''python'')), (js ''name'', JStr (js ''Python''))],
           JObj [(js ''key'', JStr (js ''js'')), (js ''name'', JStr (js ''JavaScript''))]]"
  by (simp add: example_languages_def get_opt_def js_or_def js_def)

text \<open>
  The two examples of the specification: with the languages \<open>python\<close> and \<open>js\<close>
  returned, a selection \<open>"ruby"\<close> becomes \<open>"python"\<close> and a selection \<open>"js"\<close> stays.
\<close>

theorem language_selection_after_fetch_witness:
  "(\<exists>s'. step (Resolved OpLanguages example_languages)
            ((fst mount)\<lparr>selectedLanguage := JStr (js ''ruby'')\<rparr>) = Inr (s', [])
        \<and> selectedLanguage s' = JStr (js ''python'')
        \<and> selectedLanguage s' \<in> set (language_keys
             [JObj [(js ''key'', JStr (js ''python'')), (js ''name'', JStr (js ''Python''))],
              JObj [(js ''key'', JStr (js ''js'')), (js ''name'', JStr (js ''JavaScript''))]]))
   \<and> (\<exists>s'. step (Resolved OpLanguages example_languages)
            ((fst mount)\<lparr>selectedLanguage := JStr (js ''js'')\<rparr>) = Inr (s', [])
        \<and> selectedLanguage s' = JStr (js ''js'')
        \<and> selectedLanguage s' \<in> set (language_keys
             [JObj [(js ''key'', JStr (js ''python'')), (js ''name'', JStr (js ''Python''))],
              JObj [(js ''key'', JStr (js ''js'')), (js ''name'', JStr (js ''JavaScript''))]]))"
proof -
  let ?xs = "[JObj [(js ''key'', JStr (js ''python'')), (js ''name'', JStr (js ''Python''))],
              JObj [(js ''key'', JStr (js ''js'')), (js ''name'', JStr (js ''JavaScript''))]]"
  have c: "\<not> cancelled ((fst mount)\<lparr>selectedLanguage := v\<rparr>)" for v
    by (simp add: mount_def fetchLanguages_def initial_app_def)
  have n: "\<forall>l\<in>set ?xs. l \<noteq> JNull \<and> l \<noteq> JUndefined" by simp
  have k: "language_keys ?xs = [JStr (js ''python''), JStr (js ''js'')]"
    by (simp add: language_keys_def get_opt_def js_def)
  have f: "first_key ?xs = JStr (js ''python'')"
    by (simp add: first_key_def get_opt_def js_def)
  have ne: "js ''ruby'' \<noteq> js ''python''" "js ''ruby'' \<noteq> js ''js''" "js ''js'' \<noteq> js ''python''"
    "js ''python'' \<noteq> []" "js ''ruby'' \<noteq> []" "js ''js'' \<noteq> []"
    by (simp_all add: js_def)
  have a: "\<exists>s'. step (Resolved OpLanguages example_languages)
            ((fst mount)\<lparr>selectedLanguage := JStr (js ''ruby'')\<rparr>) = Inr (s', [])
        \<and> selectedLanguage s' = JStr (js ''python'')
        \<and> selectedLanguage s' \<in> set (language_keys ?xs)"
    using language_selection_after_fetch [OF c example_languages_array n, of "JStr (js ''ruby'')"]
    unfolding k f using ne by (simp del: step.simps) blast
  have b: "\<exists>s'. step (Resolved OpLanguages example_languages)
            ((fst mount)\<lparr>selectedLanguage := JStr (js ''js'')\<rparr>) = Inr (s', [])
        \<and> selectedLanguage s' = JStr (js ''js'')
        \<and> selectedLanguage s' \<in> set (language_keys ?xs)"
    using language_selection_after_fetch [OF c example_languages_array n, of "JStr (js ''js'')"]
    unfolding k f using ne by (simp del: step.simps) blast
  show ?thesis using a b by blast
qed

text \<open>
  Claim C1 as it is written fails. When the fetch returns no language the selection
  is \<open>"python"\<close>, which is no member of the empty set; when the first returned
  language has no key the selection stays \<open>"python"\<close>, which is no key of the
  returned set; and on an empty set a current selection \<open>"ruby"\<close> is kept, not
  replaced by the default.
\<close>

theorem language_selection_counterexample:
  "step (Resolved OpLanguages (JObj [(js ''languages'', JArr [])])) (fst mount)
     = Inr (initial_app, [])
   \<and> languages initial_app = JArr []
   \<and> selectedLanguage initial_app = JStr (js ''python'')
   \<and> JStr (js ''python'') \<notin> set (language_keys [])
   \<and> step (Resolved OpLanguages
              (JObj [(js ''languages'', JArr [JObj [(js ''name'', JStr (js ''Ruby''))]])]))
        (fst mount)
     = Inr (initial_app\<lparr>languages := JArr [JObj [(js ''name'', JStr (js ''Ruby''))]]\<rparr>, [])
   \<and> JStr (js ''python'') \<notin> set (language_keys [JObj [(js ''name'', JStr (js ''Ruby''))]])
   \<and> select_language (JArr []) (JStr (js ''ruby'')) = Inr (JStr (js ''ruby''))"
  by (simp add: mount_def fetchLanguages_def fetchLanguages_resolved_def initial_app_def
      select_language_def first_key_or_def get_opt_def js_or_def language_keys_def js_def)

text \<open>
  What the hypotheses on the response exclude: when the \<open>languages\<close> field is truthy
  and not an array, or an entry reached by \<open>some\<close> is \<open>null\<close>, the updater raises a
  TypeError. It runs when React applies the update, not inside the \<open>try\<close> of
  \<open>fetchLanguages\<close>, so no handler catches it. The code of the four handlers never
  raises on a resolution: a TypeError on a \<open>null\<close> body is caught by the handler.
\<close>

lemma malformed_languages_raise:
  "step (Resolved OpLanguages (JObj [(js ''languages'', JArr [JNull])])) (fst mount)
     = Inl TypeError"
  "step (Resolved OpLanguages (JObj [(js ''languages'', JObj [])])) (fst mount)
     = Inl TypeError"
  by (simp_all add: mount_def fetchLanguages_def fetchLanguages_resolved_def initial_app_def
      select_language_def get_opt_def js_or_def js_def)

lemma region_resolved:
  "p \<noteq> OpLanguages \<Longrightarrow> settle_resolved p d s = Inr s' \<Longrightarrow> q \<noteq> p \<Longrightarrow>
   region q s' = region q s"
  by (cases p; cases q) (auto simp: resolved_defs split: sum.splits)

lemma handler_resolutions_never_raise:
  assumes "p \<noteq> OpLanguages"
  shows "\<exists>s'. step (Resolved p d) s = Inr (s', [])
        \<and> (\<forall>q. q \<noteq> p \<longrightarrow> region q s' = region q s)"
proof -
  from assms obtain s' where r: "settle_resolved p d s = Inr s'"
    by (cases p) simp_all
  then have "step (Resolved p d) s = Inr (s', [])" by simp
  moreover have "\<forall>q. q \<noteq> p \<longrightarrow> region q s' = region q s"
    using region_resolved [OF assms r] by blast
  ultimately show ?thesis by blast
qed

section \<open>The message of a rejection\<close>

text \<open>
  Claim C3, as the code has it. Whenever a call rejects, the controller stores an error
  value (for the languages fetch, unless the component is torn down). Only a run of
  code chooses it by preference: the \<open>error\<close> field of the backend's body when it is
  truthy, otherwise the \<open>message\<close> of the transport error when it is truthy,
  otherwise \<open>"Execution failed. Please try again."\<close>. The chosen value is stored as
  it is, without conversion: it is always truthy, and it is a string that is not empty
  whenever the backend's field and the transport message are each a string or absent.
  The curriculum, the lesson and the feedback store the fixed string \<open>"failed to
  fetch"\<close> and the languages fetch stores the fixed string \<open>"Unable to load Judge0
  languages. Check your backend connection."\<close>, whatever the error holds; neither
  string is empty.
\<close>

theorem rejection_messages:
  "executionResult (settle_rejected OpRun err s) = JObj [(js ''error'', run_fallback err)]
   \<and> run_fallback err =
       (if truthy (get_opt (get_opt (get_opt err (js ''response'')) (js ''data'')) (js ''error''))
        then get_opt (get_opt (get_opt err (js ''response'')) (js ''data'')) (js ''error'')
        else if truthy (get_opt err (js ''message'')) then get_opt err (js ''message'')
        else JStr (js ''Execution failed. Please try again.''))
   \<and> truthy (run_fallback err)
   \<and> run_fallback err \<noteq> JStr []
   \<and> ((get_opt (get_opt (get_opt err (js ''response'')) (js ''data'')) (js ''error'') = JUndefined
         \<or> get_opt (get_opt (get_opt err (js ''response'')) (js ''data'')) (js ''error'') = JNull
         \<or> (\<exists>t. get_opt (get_opt (get_opt err (js ''response'')) (js ''data'')) (js ''error'')
                  = JStr t))
        \<and> (get_opt err (js ''message'') = JUndefined
           \<or> get_opt err (js ''message'') = JNull
           \<or> (\<exists>t. get_opt err (js ''message'') = JStr t))
        \<longrightarrow> (\<exists>t. run_fallback err = JStr t \<and> t \<noteq> []))
   \<and> curriculum (settle_rejected OpCurriculum err s)
       = JObj [(js ''error'', JStr (js ''failed to fetch''))]
   \<and> lesson (settle_rejected OpLesson err s)
       = JObj [(js ''error'', JStr (js ''failed to fetch''))]
   \<and> feedback (settle_rejected OpFeedback err s)
       = JObj [(js ''error'', JStr (js ''failed to fetch''))]
   \<and> (\<not> cancelled s \<longrightarrow>
        languageError (settle_rejected OpLanguages err s)
          = JStr (js ''Unable to load Judge0 languages. Check your backend connection.''))
   \<and> js ''failed to fetch'' \<noteq> []
   \<and> js ''Unable to load Judge0 languages. Check your backend connection.'' \<noteq> []"
proof -
  let ?b = "get_opt (get_opt (get_opt err (js ''response'')) (js ''data'')) (js ''error'')"
  let ?m = "get_opt err (js ''message'')"
  have t: "truthy (run_fallback err)" by (rule truthy_run_fallback)
  then have n: "run_fallback err \<noteq> JStr []" by auto
  have c: "run_fallback err =
       (if truthy ?b then ?b else if truthy ?m then ?m
        else JStr (js ''Execution failed. Please try again.''))"
    by (simp add: run_fallback_def js_or_def)
  have st: "(?b = JUndefined \<or> ?b = JNull \<or> (\<exists>t. ?b = JStr t))
        \<and> (?m = JUndefined \<or> ?m = JNull \<or> (\<exists>t. ?m = JStr t))
        \<longrightarrow> (\<exists>t. run_fallback err = JStr t \<and> t \<noteq> [])"
  proof
    assume h: "(?b = JUndefined \<or> ?b = JNull \<or> (\<exists>t. ?b = JStr t))
        \<and> (?m = JUndefined \<or> ?m = JNull \<or> (\<exists>t. ?m = JStr t))"
    have "\<exists>t. run_fallback err = JStr t"
    proof (cases "truthy ?b")
      case True
      with h have "\<exists>t. ?b = JStr t" by auto
      with True c show ?thesis by simp
    next
      case False
      show ?thesis
      proof (cases "truthy ?m")
        case True
        with h have "\<exists>t. ?m = JStr t" by auto
        with True False c show ?thesis by simp
      next
        case m: False
        with False c show ?thesis by simp
      qed
    qed
    with n show "\<exists>t. run_fallback err = JStr t \<and> t \<noteq> []" by auto
  qed
  have r: "executionResult (settle_rejected OpRun err s) = JObj [(js ''error'', run_fallback err)]
   \<and> curriculum (settle_rejected OpCurriculum err s)
       = JObj [(js ''error'', JStr (js ''failed to fetch''))]
   \<and> lesson (settle_rejected OpLesson err s)
       = JObj [(js ''error'', JStr (js ''failed to fetch''))]
   \<and> feedback (settle_rejected OpFeedback err s)
       = JObj [(js ''error'', JStr (js ''failed to fetch''))]
   \<and> (\<not> cancelled s \<longrightarrow>
        languageError (settle_rejected OpLanguages err s)
          = JStr (js ''Unable to load Judge0 languages. Check your backend connection.''))"
    by (simp add: rejected_defs failed_to_fetch_def)
  have e: "js ''failed to fetch'' \<noteq> []
   \<and> js ''Unable to load Judge0 languages. Check your backend connection.'' \<noteq> []"
    by (simp add: js_def)
  show ?thesis using t n c st r e by blast
qed

text \<open>
  A run rejected with a backend body, with a transport message only, and with nothing
  at all; and the languages fetch rejected on a mounted component.
\<close>

theorem rejection_messages_witness:
  "\<not> cancelled example_busy
   \<and> languageError (settle_rejected OpLanguages example_error example_busy)
       = JStr (js ''Unable to load Judge0 languages. Check your backend connection.'')
   \<and> get_opt (get_opt (get_opt example_error (js ''response'')) (js ''data'')) (js ''error'')
       = JStr (js ''quota exceeded'')
   \<and> get_opt example_error (js ''message'') = JStr (js ''Request failed with status code 429'')
   \<and> (\<exists>t. run_fallback example_error = JStr t \<and> t \<noteq> [])
   \<and> executionResult (settle_rejected OpRun example_error example_busy)
       = JObj [(js ''error'', JStr (js ''quota exceeded''))]
   \<and> executionResult (settle_rejected OpRun (JObj [(js ''message'', JStr (js ''Network Error''))])
         example_busy)
       = JObj [(js ''error'', JStr (js ''Network Error''))]
   \<and> executionResult (settle_rejected OpRun JUndefined example_busy)
       = JObj [(js ''error'', JStr (js ''Execution failed. Please try again.''))]"
proof -
  have c: "\<not> cancelled example_busy"
    by (simp add: example_busy_def example_idle_def initial_app_def)
  have g: "get_opt (get_opt (get_opt example_error (js ''response'')) (js ''data'')) (js ''error'')
      = JStr (js ''quota exceeded'')"
    by (simp add: example_error_def get_opt_def js_def)
  have m: "get_opt example_error (js ''message'') = JStr (js ''Request failed with status code 429'')"
    by (simp add: example_error_def get_opt_def js_def)
  have q: "js ''quota exceeded'' \<noteq> []" by (simp add: js_def)
  have a: "languageError (settle_rejected OpLanguages example_error example_busy)
       = JStr (js ''Unable to load Judge0 languages. Check your backend connection.'')"
    using rejection_messages [of example_error example_busy] c by blast
  have x: "\<exists>t. run_fallback example_error = JStr t \<and> t \<noteq> []"
    using rejection_messages [of example_error example_busy] g m by blast
  have b: "executionResult (settle_rejected OpRun example_error example_busy)
       = JObj [(js ''error'', JStr (js ''quota exceeded''))]"
    using rejection_messages [of example_error example_busy] g q by simp
  have d: "executionResult (settle_rejected OpRun (JObj [(js ''message'', JStr (js ''Network Error''))])
         example_busy)
       = JObj [(js ''error'', JStr (js ''Network Error''))]"
    using rejection_messages [of "JObj [(js ''message'', JStr (js ''Network Error''))]" example_busy]
    by (simp add: get_opt_def js_def)
  have e: "executionResult (settle_rejected OpRun JUndefined example_busy)
       = JObj [(js ''error'', JStr (js ''Execution failed. Please try again.''))]"
    using rejection_messages [of JUndefined example_busy]
    by (simp add: get_opt_def)
  show ?thesis using c a g m x b d e by blast
qed

text \<open>
  Claim C3 as it is written fails, in two ways. The error carries the backend's field
  \<open>"quota exceeded"\<close> and the transport message \<open>"Request failed with status code
  429"\<close>: the curriculum, the lesson, the feedback and the languages fetch store
  their fixed string, not the backend's field. And a run of code does not normalize
  what it stores to a message: a backend field \<open>true\<close>, or an object, is stored as it
  is.
\<close>

theorem rejection_messages_counterexample:
  "get_opt (get_opt (get_opt example_error (js ''response'')) (js ''data'')) (js ''error'')
     = JStr (js ''quota exceeded'')
   \<and> get_opt example_error (js ''message'') = JStr (js ''Request failed with status code 429'')
   \<and> curriculum (settle_rejected OpCurriculum example_error example_busy)
       = JObj [(js ''error'', JStr (js ''failed to fetch''))]
   \<and> lesson (settle_rejected OpLesson example_error example_busy)
       = JObj [(js ''error'', JStr (js ''failed to fetch''))]
   \<and> feedback (settle_rejected OpFeedback example_error example_busy)
       = JObj [(js ''error'', JStr (js ''failed to fetch''))]
   \<and> languageError (settle_rejected OpLanguages example_error example_busy)
       = JStr (js ''Unable to load Judge0 languages. Check your backend connection.'')
   \<and> js ''failed to fetch'' \<noteq> js ''quota exceeded''
   \<and> js ''Unable to load Judge0 languages. Check your backend connection.''
       \<noteq> js ''quota exceeded''
   \<and> executionResult
        (settle_rejected OpRun
           (JObj [(js ''message'', JStr (js ''Request failed with status code 400'')),
                  (js ''response'', JObj [(js ''data'', JObj [(js ''error'', JBool True)])])])
           example_busy)
       = JObj [(js ''error'', JBool True)]
   \<and> executionResult
        (settle_rejected OpRun
           (JObj [(js ''message'', JStr (js ''Request failed with status code 400'')),
                  (js ''response'',
                   JObj [(js ''data'',
                          JObj [(js ''error'',
                                 JObj [(js ''detail'', JStr (js ''quota exceeded''))])])])])
           example_busy)
       = JObj [(js ''error'', JObj [(js ''detail'', JStr (js ''quota exceeded''))])]"
  by (simp add: example_error_def get_opt_def rejected_defs failed_to_fetch_def
      run_fallback_def js_or_def example_busy_def example_idle_def initial_app_def js_def)

section \<open>The transitions of an operation\<close>

text \<open>
  Claim C5, as the code has it. An accepted trigger (input not blank, button not
  loading) sets the loading flag of its operation and issues its request; only a run
  of code also clears its previous result or error, the curriculum, the lesson and the
  feedback keep theirs while the call is in flight. Mounting sets the languages
  loading flag and issues the languages request. When the call of a button operation
  resolves, the result is stored (the \<open>curriculum\<close> or \<open>feedback\<close> field of the
  body when truthy, else the body; \<open>{error: "failed to fetch"}\<close> when the body is
  \<open>null\<close> or \<open>undefined\<close>) and the loading flag is cleared; when it rejects, the
  error value is stored (\<open>{error: "failed to fetch"}\<close>, for a run the value chosen by
  its preference chain) and the loading flag is cleared. Unless the component is torn
  down, the languages fetch stores its fixed message and clears its loading flag when
  it rejects, and when it resolves with a \<open>languages\<close> field that is absent, falsy
  or an array of language objects it stores the list, clears its error and clears its
  loading flag.
\<close>

theorem operation_transitions:
  "(\<not> blank (topic s) \<and> \<not> topicLoading s \<longrightarrow>
      click BtnGenerate s = (s\<lparr>topicLoading := True\<rparr>, [generateCurriculum (JStr (topic s))]))
   \<and> (\<not> blank (concept s) \<and> \<not> lessonLoading s \<longrightarrow>
      click BtnExplain s = (s\<lparr>lessonLoading := True\<rparr>, [generateLesson (JStr (concept s))]))
   \<and> (\<not> blank (code s) \<and> \<not> feedbackLoading s \<longrightarrow>
      click BtnFeedback s = (s\<lparr>feedbackLoading := True\<rparr>, [getFeedback (JStr (code s))]))
   \<and> (\<not> blank (code s) \<and> \<not> executionLoading s \<longrightarrow>
      click BtnRun s =
        (s\<lparr>executionLoading := True, executionResult := JNull\<rparr>,
         [runCode (JObj [(js ''language'', selectedLanguage s),
                         (js ''source_code'', JStr (code s)),
                         (js ''stdin'', JStr (stdin s))])]))
   \<and> mount = (initial_app\<lparr>languagesLoading := True\<rparr>, [listLanguages])
   \<and> (d \<noteq> JNull \<and> d \<noteq> JUndefined \<longrightarrow>
        settle_resolved OpCurriculum d s =
          Inr (s\<lparr>curriculum := js_or (get_opt d (js ''curriculum'')) d, topicLoading := False\<rparr>))
   \<and> (d = JNull \<or> d = JUndefined \<longrightarrow>
        settle_resolved OpCurriculum d s =
          Inr (s\<lparr>curriculum := JObj [(js ''error'', JStr (js ''failed to fetch''))], topicLoading := False\<rparr>))
   \<and> settle_resolved OpLesson d s = Inr (s\<lparr>lesson := d, lessonLoading := False\<rparr>)
   \<and> (d \<noteq> JNull \<and> d \<noteq> JUndefined \<longrightarrow>
        settle_resolved OpFeedback d s =
          Inr (s\<lparr>feedback := js_or (get_opt d (js ''feedback'')) d, feedbackLoading := False\<rparr>))
   \<and> (d = JNull \<or> d = JUndefined \<longrightarrow>
        settle_resolved OpFeedback d s =
          Inr (s\<lparr>feedback := JObj [(js ''error'', JStr (js ''failed to fetch''))], feedbackLoading := False\<rparr>))
   \<and> settle_resolved OpRun d s = Inr (s\<lparr>executionResult := d, executionLoading := False\<rparr>)
   \<and> (\<not> cancelled s \<and> js_or (get_opt d (js ''languages'')) (JArr []) = JArr xs
        \<and> (\<forall>l\<in>set xs. l \<noteq> JNull \<and> l \<noteq> JUndefined) \<longrightarrow>
        (\<exists>s'. settle_resolved OpLanguages d s = Inr s'
           \<and> languages s' = JArr xs
           \<and> languageError s' = JNull \<and> \<not> languagesLoading s'))
   \<and> settle_rejected OpCurriculum err s = s\<lparr>curriculum := JObj [(js ''error'', JStr (js ''failed to fetch''))], topicLoading := False\<rparr>
   \<and> settle_rejected OpLesson err s = s\<lparr>lesson := JObj [(js ''error'', JStr (js ''failed to fetch''))], lessonLoading := False\<rparr>
   \<and> settle_rejected OpFeedback err s = s\<lparr>feedback := JObj [(js ''error'', JStr (js ''failed to fetch''))], feedbackLoading := False\<rparr>
   \<and> settle_rejected OpRun err s =
        s\<lparr>executionResult := JObj [(js ''error'', run_fallback err)], executionLoading := False\<rparr>
   \<and> (\<not> cancelled s \<longrightarrow>
        settle_rejected OpLanguages err s =
          s\<lparr>languageError :=
               JStr (js ''Unable to load Judge0 languages. Check your backend connection.''),
            languagesLoading := False\<rparr>)"
proof -
  have g: "d \<noteq> JNull \<and> d \<noteq> JUndefined \<longrightarrow> get_prop d p = Inr (get_opt d p)" for p
    by (simp add: get_prop_get_opt)
  have l: "\<not> cancelled s \<and> js_or (get_opt d (js ''languages'')) (JArr []) = JArr xs
        \<and> (\<forall>l\<in>set xs. l \<noteq> JNull \<and> l \<noteq> JUndefined) \<longrightarrow>
        (\<exists>s'. settle_resolved OpLanguages d s = Inr s'
           \<and> languages s' = JArr xs
           \<and> languageError s' = JNull \<and> \<not> languagesLoading s')"
    using select_language_array [of xs "selectedLanguage s"]
    by (auto simp: fetchLanguages_resolved_def)
  have c: "(\<not> blank (topic s) \<and> \<not> topicLoading s \<longrightarrow>
      click BtnGenerate s = (s\<lparr>topicLoading := True\<rparr>, [generateCurriculum (JStr (topic s))]))
   \<and> (\<not> blank (concept s) \<and> \<not> lessonLoading s \<longrightarrow>
      click BtnExplain s = (s\<lparr>lessonLoading := True\<rparr>, [generateLesson (JStr (concept s))]))
   \<and> (\<not> blank (code s) \<and> \<not> feedbackLoading s \<longrightarrow>
      click BtnFeedback s = (s\<lparr>feedbackLoading := True\<rparr>, [getFeedback (JStr (code s))]))
   \<and> (\<not> blank (code s) \<and> \<not> executionLoading s \<longrightarrow>
      click BtnRun s =
        (s\<lparr>executionLoading := True, executionResult := JNull\<rparr>,
         [runCode (JObj [(js ''language'', selectedLanguage s),
                         (js ''source_code'', JStr (code s)),
                         (js ''stdin'', JStr (stdin s))])]))
   \<and> mount = (initial_app\<lparr>languagesLoading := True\<rparr>, [listLanguages])"
    by (simp add: PrimaryButton_def start_defs mount_def fetchLanguages_def)
  have r: "(d \<noteq> JNull \<and> d \<noteq> JUndefined \<longrightarrow>
        settle_resolved OpCurriculum d s =
          Inr (s\<lparr>curriculum := js_or (get_opt d (js ''curriculum'')) d, topicLoading := False\<rparr>))
   \<and> (d = JNull \<or> d = JUndefined \<longrightarrow>
        settle_resolved OpCurriculum d s =
          Inr (s\<lparr>curriculum := JObj [(js ''error'', JStr (js ''failed to fetch''))], topicLoading := False\<rparr>))
   \<and> settle_resolved OpLesson d s = Inr (s\<lparr>lesson := d, lessonLoading := False\<rparr>)
   \<and> (d \<noteq> JNull \<and> d \<noteq> JUndefined \<longrightarrow>
        settle_resolved OpFeedback d s =
          Inr (s\<lparr>feedback := js_or (get_opt d (js ''feedback'')) d, feedbackLoading := False\<rparr>))
   \<and> (d = JNull \<or> d = JUndefined \<longrightarrow>
        settle_resolved OpFeedback d s =
          Inr (s\<lparr>feedback := JObj [(js ''error'', JStr (js ''failed to fetch''))], feedbackLoading := False\<rparr>))
   \<and> settle_resolved OpRun d s = Inr (s\<lparr>executionResult := d, executionLoading := False\<rparr>)"
    using g by (auto simp: resolved_defs failed_to_fetch_def)
  have j: "settle_rejected OpCurriculum err s = s\<lparr>curriculum := JObj [(js ''error'', JStr (js ''failed to fetch''))], topicLoading := False\<rparr>
   \<and> settle_rejected OpLesson err s = s\<lparr>lesson := JObj [(js ''error'', JStr (js ''failed to fetch''))], lessonLoading := False\<rparr>
   \<and> settle_rejected OpFeedback err s = s\<lparr>feedback := JObj [(js ''error'', JStr (js ''failed to fetch''))], feedbackLoading := False\<rparr>
   \<and> settle_rejected OpRun err s =
        s\<lparr>executionResult := JObj [(js ''error'', run_fallback err)], executionLoading := False\<rparr>
   \<and> (\<not> cancelled s \<longrightarrow>
        settle_rejected OpLanguages err s =
          s\<lparr>languageError :=
               JStr (js ''Unable to load Judge0 languages. Check your backend connection.''),
            languagesLoading := False\<rparr>)"
    by (simp add: rejected_defs failed_to_fetch_def)
  show ?thesis using c r l j by blast
qed

text \<open>
  The four clicks on the state with nothing in flight, and the settlements of the
  curriculum, the feedback and the languages on the state with everything in flight.
\<close>

theorem operation_transitions_witness:
  "\<not> blank (topic example_idle) \<and> \<not> blank (concept example_idle) \<and> \<not> blank (code example_idle)
   \<and> \<not> topicLoading example_idle \<and> \<not> lessonLoading example_idle
   \<and> \<not> feedbackLoading example_idle \<and> \<not> executionLoading example_idle
   \<and> click BtnGenerate example_idle
       = (example_idle\<lparr>topicLoading := True\<rparr>, [generateCurriculum (JStr (topic example_idle))])
   \<and> click BtnExplain example_idle
       = (example_idle\<lparr>lessonLoading := True\<rparr>, [generateLesson (JStr (concept example_idle))])
   \<and> click BtnFeedback example_idle
       = (example_idle\<lparr>feedbackLoading := True\<rparr>, [getFeedback (JStr (code example_idle))])
   \<and> click BtnRun example_idle
       = (example_idle\<lparr>executionLoading := True, executionResult := JNull\<rparr>,
          [runCode (JObj [(js ''language'', selectedLanguage example_idle),
                          (js ''source_code'', JStr (code example_idle)),
                          (js ''stdin'', JStr (stdin example_idle))])])
   \<and> settle_resolved OpCurriculum example_curriculum example_busy
       = Inr (example_busy\<lparr>curriculum := JObj [(js ''levels'', JArr [])], topicLoading := False\<rparr>)
   \<and> settle_resolved OpFeedback example_curriculum example_busy
       = Inr (example_busy\<lparr>feedback := example_curriculum, feedbackLoading := False\<rparr>)
   \<and> settle_resolved OpCurriculum JNull example_busy
       = Inr (example_busy\<lparr>curriculum := JObj [(js ''error'', JStr (js ''failed to fetch''))], topicLoading := False\<rparr>)
   \<and> settle_resolved OpFeedback JNull example_busy
       = Inr (example_busy\<lparr>feedback := JObj [(js ''error'', JStr (js ''failed to fetch''))], feedbackLoading := False\<rparr>)
   \<and> \<not> cancelled example_busy
   \<and> settle_resolved OpLanguages example_languages example_busy
       = Inr (example_busy\<lparr>languages := get_opt example_languages (js ''languages''),
                           languagesLoading := False\<rparr>)
   \<and> (\<exists>s'. settle_resolved OpLanguages example_languages example_busy = Inr s'
          \<and> languages s' = get_opt example_languages (js ''languages'')
          \<and> languageError s' = JNull \<and> \<not> languagesLoading s')
   \<and> settle_rejected OpLanguages example_error example_busy
       = example_busy\<lparr>languageError :=
               JStr (js ''Unable to load Judge0 languages. Check your backend connection.''),
            languagesLoading := False\<rparr>"
proof -
  note nb = example_idle_not_blank
  let ?xs = "[JObj [(js ''key'', JStr (js ''python'')), (js ''name'', JStr (js ''Python''))],
              JObj [(js ''key'', JStr (js ''js'')), (js ''name'', JStr (js ''JavaScript''))]]"
  note i = operation_transitions [of example_idle JNull _ JNull]
  note b = operation_transitions [of example_busy example_curriculum _ example_error]
  note n = operation_transitions [of example_busy JNull _ example_error]
  note l = operation_transitions [of example_busy example_languages ?xs example_error]
  have la: "js_or (get_opt example_languages (js ''languages'')) (JArr []) = JArr ?xs"
    by (rule example_languages_array)
  have lg: "get_opt example_languages (js ''languages'') = JArr ?xs"
    by (simp add: example_languages_def get_opt_def)
  have ln: "\<forall>l\<in>set ?xs. l \<noteq> JNull \<and> l \<noteq> JUndefined" by simp
  have f: "\<not> topicLoading example_idle \<and> \<not> lessonLoading example_idle
   \<and> \<not> feedbackLoading example_idle \<and> \<not> executionLoading example_idle"
    by (simp add: example_idle_def initial_app_def)
  have c: "\<not> cancelled example_busy"
    by (simp add: example_busy_def example_idle_def initial_app_def)
  have dn: "example_curriculum \<noteq> JNull \<and> example_curriculum \<noteq> JUndefined"
    by (simp add: example_curriculum_def)
  have gc: "js_or (get_opt example_curriculum (js ''curriculum'')) example_curriculum
      = JObj [(js ''levels'', JArr [])]"
    by (simp add: example_curriculum_def get_opt_def js_or_def)
  have gf: "js_or (get_opt example_curriculum (js ''feedback'')) example_curriculum
      = example_curriculum"
    by (simp add: example_curriculum_def get_opt_def js_or_def js_def)
  have sl: "settle_resolved OpLanguages example_languages example_busy
       = Inr (example_busy\<lparr>languages := get_opt example_languages (js ''languages''),
                           languagesLoading := False\<rparr>)"
    by (simp add: fetchLanguages_resolved_def example_languages_def get_opt_def js_or_def
        select_language_def example_busy_def example_idle_def initial_app_def js_def)
  have a1: "click BtnGenerate example_idle
       = (example_idle\<lparr>topicLoading := True\<rparr>, [generateCurriculum (JStr (topic example_idle))])"
    using i nb f by blast
  have a2: "click BtnExplain example_idle
       = (example_idle\<lparr>lessonLoading := True\<rparr>, [generateLesson (JStr (concept example_idle))])"
    using i nb f by blast
  have a3: "click BtnFeedback example_idle
       = (example_idle\<lparr>feedbackLoading := True\<rparr>, [getFeedback (JStr (code example_idle))])"
    using i nb f by blast
  have a4: "click BtnRun example_idle
       = (example_idle\<lparr>executionLoading := True, executionResult := JNull\<rparr>,
          [runCode (JObj [(js ''language'', selectedLanguage example_idle),
                          (js ''source_code'', JStr (code example_idle)),
                          (js ''stdin'', JStr (stdin example_idle))])])"
    using i nb f by blast
  have a5: "settle_resolved OpCurriculum example_curriculum example_busy
       = Inr (example_busy\<lparr>curriculum := JObj [(js ''levels'', JArr [])], topicLoading := False\<rparr>)"
    using b dn gc by metis
  have a6: "settle_resolved OpFeedback example_curriculum example_busy
       = Inr (example_busy\<lparr>feedback := example_curriculum, feedbackLoading := False\<rparr>)"
    using b dn gf by metis
  have a7: "settle_resolved OpCurriculum JNull example_busy
       = Inr (example_busy\<lparr>curriculum := JObj [(js ''error'', JStr (js ''failed to fetch''))], topicLoading := False\<rparr>)"
    using n by blast
  have a8: "settle_resolved OpFeedback JNull example_busy
       = Inr (example_busy\<lparr>feedback := JObj [(js ''error'', JStr (js ''failed to fetch''))], feedbackLoading := False\<rparr>)"
    using n by blast
  have a9: "\<exists>s'. settle_resolved OpLanguages example_languages example_busy = Inr s'
          \<and> languages s' = get_opt example_languages (js ''languages'')
          \<and> languageError s' = JNull \<and> \<not> languagesLoading s'"
    unfolding lg using l c la ln by blast
  have a10: "settle_rejected OpLanguages example_error example_busy
       = example_busy\<lparr>languageError :=
               JStr (js ''Unable to load Judge0 languages. Check your backend connection.''),
            languagesLoading := False\<rparr>"
    using l c by blast
  show ?thesis using nb f c sl a1 a2 a3 a4 a5 a6 a7 a8 a9 a10 by blast
qed

text \<open>
  Claim C5 as it is written fails. A curriculum call is rejected and the user clicks
  the button again: the topic is not blank and the flag is false, so the click is
  accepted, the flag is set and a second request is issued, and the error of the
  first call is still stored while the second is in flight.
\<close>

theorem operation_transitions_counterexample:
  "run [TopicChange (js ''sql''), Click BtnGenerate, Rejected OpCurriculum example_error,
        Click BtnGenerate] (fst mount)
     = Inr (initial_app\<lparr>topic := js ''sql'', languagesLoading := True,
                        curriculum := JObj [(js ''error'', JStr (js ''failed to fetch''))],
                        topicLoading := True\<rparr>,
            [generateCurriculum (JStr (js ''sql'')), generateCurriculum (JStr (js ''sql''))])"
proof -
  have nb: "\<not> blank (js ''sql'')"
    by (simp add: blank_def trim_def is_white_space_def js_def)
  show ?thesis
    using nb
    by (simp add: mount_def fetchLanguages_def PrimaryButton_def handleGenerate_def
        handleGenerate_rejected_def failed_to_fetch_def initial_app_def)
qed

end
